theory Spec2Isabelle
  imports Complex_Main
begin

section \<open>Values, arrays and errors\<close>

text \<open>
  Pixel values. The source computes in single precision; the model idealises a finite
  float as the real number it denotes (no rounding, no overflow) and keeps one
  non-finite value, \<open>NaN\<close>, which numpy produces when a reduction over an empty axis
  divides a zero sum by a zero count. \<open>NaN\<close> propagates through arithmetic and is
  truthy, as in numpy.
\<close>

datatype f32 = Fin real | NaN

fun f32_add :: "f32 \<Rightarrow> f32 \<Rightarrow> f32" where
  "f32_add (Fin x) (Fin y) = Fin (x + y)"
| "f32_add _ _ = NaN"

fun f32_sub :: "f32 \<Rightarrow> f32 \<Rightarrow> f32" where
  "f32_sub (Fin x) (Fin y) = Fin (x - y)"
| "f32_sub _ _ = NaN"

fun f32_mul :: "f32 \<Rightarrow> f32 \<Rightarrow> f32" where
  "f32_mul (Fin x) (Fin y) = Fin (x * y)"
| "f32_mul _ _ = NaN"

fun f32_max :: "f32 \<Rightarrow> f32 \<Rightarrow> f32" where
  "f32_max (Fin x) (Fin y) = Fin (max x y)"
| "f32_max _ _ = NaN"

fun f32_abs :: "f32 \<Rightarrow> f32" where
  "f32_abs (Fin x) = Fin \<bar>x\<bar>"
| "f32_abs NaN = NaN"

text \<open>
  Division of a value by a number. Every division of the source that can meet a zero
  divisor divides a zero sum (a reduction over zero frames), which numpy evaluates to
  nan with a warning, never to an exception.
\<close>

fun f32_div :: "f32 \<Rightarrow> real \<Rightarrow> f32" where
  "f32_div (Fin x) n = (if n = 0 then NaN else Fin (x / n))"
| "f32_div NaN n = NaN"

fun f32_truthy :: "f32 \<Rightarrow> bool" where
  "f32_truthy (Fin x) = (x \<noteq> 0)"
| "f32_truthy NaN = True"

text \<open>
  A numpy array of any number of dimensions: its shape and its elements in row-major
  order. Frames and output maps are values of this type.
\<close>

datatype ndarray = NDArray (shape: "nat list") (data: "f32 list")

text \<open>
  A numpy array of at least one dimension, seen along axis 0: the shape of one slice
  and the list of the slices \<open>a[0], a[1], ...\<close>, each in row-major order. A frame stack
  of shape \<open>(T, H, W)\<close> has \<open>fshape = [H, W]\<close> and \<open>T\<close> frames. An array of zero
  dimensions is not a value of this type: the entry points are modelled on inputs
  that have an axis 0. (On a zero-dimensional input the assertion of the SRRF entry
  point fails like on any other array that is not three-dimensional, and in the eSRRF
  entry point \<open>np.mean(im, axis=0)\<close> and \<open>np.var(im, axis=0)\<close> raise numpy's AxisError;
  nothing below speaks about that case.)
\<close>

datatype ndstack = NDStack (fshape: "nat list") (frames: "f32 list list")

definition n_frames :: "ndstack \<Rightarrow> nat" where
  "n_frames s = length (frames s)"

definition ndim :: "ndstack \<Rightarrow> nat" where
  "ndim s = Suc (length (fshape s))"

definition wf_stack :: "ndstack \<Rightarrow> bool" where
  "wf_stack s = list_all (\<lambda>f. length f = prod_list (fshape s)) (frames s)"

definition wf_array :: "ndarray \<Rightarrow> bool" where
  "wf_array a = (length (data a) = prod_list (shape a))"

text \<open>A value bound to a Python variable that holds a number at one time and an array at another.\<close>

datatype pyval = PyScalar f32 | PyArray ndarray

text \<open>
  The exceptions: Python's built-in classes that the source or numpy raise, and
  \<open>LibraryError\<close> for an exception of another class raised inside a library routine
  (its class and message as text).
\<close>

datatype error =
  AssertionError | ValueError string | IndexError | ZeroDivisionError | LibraryError string

definition bind_err :: "error + 'a \<Rightarrow> ('a \<Rightarrow> error + 'b) \<Rightarrow> error + 'b" where
  "bind_err m f = (case m of Inl e \<Rightarrow> Inl e | Inr x \<Rightarrow> f x)"

subsection \<open>The numpy operations the source uses\<close>

definition np_zeros :: "nat list \<Rightarrow> ndarray" where
  "np_zeros sh = NDArray sh (replicate (prod_list sh) (Fin 0))"

text \<open>Elementwise operations; at every use in the source the operands have one shape.\<close>

definition np_add :: "ndarray \<Rightarrow> ndarray \<Rightarrow> ndarray" where
  "np_add a b = NDArray (shape a) (map2 f32_add (data a) (data b))"

definition np_sub :: "ndarray \<Rightarrow> ndarray \<Rightarrow> ndarray" where
  "np_sub a b = NDArray (shape a) (map2 f32_sub (data a) (data b))"

definition np_multiply :: "ndarray \<Rightarrow> ndarray \<Rightarrow> ndarray" where
  "np_multiply a b = NDArray (shape a) (map2 f32_mul (data a) (data b))"

definition np_absolute :: "ndarray \<Rightarrow> ndarray" where
  "np_absolute a = NDArray (shape a) (map f32_abs (data a))"

definition np_divide :: "ndarray \<Rightarrow> real \<Rightarrow> ndarray" where
  "np_divide a n = NDArray (shape a) (map (\<lambda>x. f32_div x n) (data a))"

text \<open>\<open>np.maximum(a, 0)\<close> and \<open>np.any(a)\<close>.\<close>

definition np_maximum0 :: "ndarray \<Rightarrow> ndarray" where
  "np_maximum0 a = NDArray (shape a) (map (\<lambda>x. f32_max x (Fin 0)) (data a))"

definition np_any :: "ndarray \<Rightarrow> bool" where
  "np_any a = list_ex f32_truthy (data a)"

text \<open>
  Indexing along axis 0 with a Python integer: negative indices count from the end,
  an index out of range raises IndexError.
\<close>

definition stack_get :: "ndstack \<Rightarrow> int \<Rightarrow> error + ndarray" where
  "stack_get s t =
     (let n = int (n_frames s); j = (if t < 0 then n + t else t)
      in if 0 \<le> j \<and> j < n then Inr (NDArray (fshape s) (frames s ! nat j))
         else Inl IndexError)"

text \<open>\<open>s[t] = v\<close>: the slice is overwritten in place with the elements of \<open>v\<close>.\<close>

definition stack_set :: "ndstack \<Rightarrow> int \<Rightarrow> ndarray \<Rightarrow> error + ndstack" where
  "stack_set s t v =
     (let n = int (n_frames s); j = (if t < 0 then n + t else t)
      in if 0 \<le> j \<and> j < n then Inr (NDStack (fshape s) ((frames s)[nat j := data v]))
         else Inl IndexError)"

text \<open>Reductions along axis 0.\<close>

definition np_sum0 :: "ndstack \<Rightarrow> f32 list" where
  "np_sum0 s = foldl (map2 f32_add) (replicate (prod_list (fshape s)) (Fin 0)) (frames s)"

definition np_mean :: "ndstack \<Rightarrow> ndarray" where
  "np_mean s = NDArray (fshape s) (map (\<lambda>x. f32_div x (real (n_frames s))) (np_sum0 s))"

text \<open>\<open>s - m\<close> with \<open>m\<close> of the shape of one slice: broadcast along axis 0.\<close>

definition stack_sub :: "ndstack \<Rightarrow> ndarray \<Rightarrow> ndstack" where
  "stack_sub s m = NDStack (fshape s) (map (\<lambda>f. map2 f32_sub f (data m)) (frames s))"

definition stack_mul :: "ndstack \<Rightarrow> ndstack \<Rightarrow> ndstack" where
  "stack_mul a b = NDStack (fshape a) (map2 (map2 f32_mul) (frames a) (frames b))"

text \<open>\<open>np.var(s, axis=0)\<close>: the mean of the squared deviations from the mean, divisor T.\<close>

definition np_var :: "ndstack \<Rightarrow> ndarray" where
  "np_var s = (let d = stack_sub s (np_mean s) in np_mean (stack_mul d d))"

text \<open>
  \<open>np.amax(s, axis=0)\<close>: a reduction without identity, so numpy raises ValueError when
  there are no frames to reduce.
\<close>

definition np_amax :: "ndstack \<Rightarrow> error + ndarray" where
  "np_amax s =
     (case frames s of
        [] \<Rightarrow> Inl (ValueError ''zero-size array to reduction operation maximum which has no identity'')
      | f # fs \<Rightarrow> Inr (NDArray (fshape s) (foldl (map2 f32_max) f fs)))"

text \<open>Python's \<open>+\<close> and \<open>/\<close> on a variable that is a number or an array (broadcasting a number).\<close>

fun py_add :: "pyval \<Rightarrow> pyval \<Rightarrow> pyval" where
  "py_add (PyScalar x) (PyScalar y) = PyScalar (f32_add x y)"
| "py_add (PyScalar x) (PyArray b) = PyArray (NDArray (shape b) (map (f32_add x) (data b)))"
| "py_add (PyArray a) (PyScalar y) = PyArray (NDArray (shape a) (map (\<lambda>x. f32_add x y) (data a)))"
| "py_add (PyArray a) (PyArray b) = PyArray (np_add a b)"

fun py_div :: "pyval \<Rightarrow> real \<Rightarrow> pyval" where
  "py_div (PyScalar x) n = PyScalar (f32_div x n)"
| "py_div (PyArray a) n = PyArray (np_divide a n)"

subsection \<open>The store\<close>

text \<open>
  Array objects live in a store; a Python variable bound to an array holds a reference
  (an index into the store). \<open>np.array(im, dtype='float32')\<close> and \<open>a.copy()\<close> allocate a
  new object with the same contents; an assignment \<open>a[t] = v\<close> writes into the object
  the reference points to.
\<close>

type_synonym ref = nat
type_synonym store = "ndstack list"

definition np_copy :: "store \<Rightarrow> ref \<Rightarrow> ref \<times> store" where
  "np_copy st r = (length st, st @ [st ! r])"

definition store_setitem :: "store \<Rightarrow> ref \<Rightarrow> int \<Rightarrow> ndarray \<Rightarrow> error + store" where
  "store_setitem st r t v =
     (case stack_set (st ! r) t v of Inl e \<Rightarrow> Inl e | Inr s' \<Rightarrow> Inr (st[r := s']))"

section \<open>sr\_temporal\_correlations.py\<close>

subsection \<open>calculate\_pairwise\_product\_sum\<close>

text \<open>
  The unpacking \<open>n_time_points, height_m, width_m = a.shape\<close> raises ValueError unless
  the array has three dimensions.
\<close>

definition unpack_shape3 :: "ndstack \<Rightarrow> error + (nat \<times> nat \<times> nat)" where
  "unpack_shape3 s =
     (case fshape s of
        [h, w] \<Rightarrow> Inr (n_frames s, h, w)
      | [] \<Rightarrow> Inl (ValueError ''not enough values to unpack'')
      | [h] \<Rightarrow> Inl (ValueError ''not enough values to unpack'')
      | _ \<Rightarrow> Inl (ValueError ''too many values to unpack''))"

text \<open>
  The inner loop over \<open>t1 in range(t0, n_time_points)\<close> and the outer loop over
  \<open>t0 in range(n_time_points)\<close>; the loop state is \<open>(pps, counter)\<close>. The indices come
  from the ranges, so they are within the stack.
\<close>

definition frame_at :: "ndstack \<Rightarrow> nat \<Rightarrow> ndarray" where
  "frame_at s t = NDArray (fshape s) (frames s ! t)"

definition pps_inner :: "ndstack \<Rightarrow> ndarray \<Rightarrow> nat \<Rightarrow> pyval \<times> int \<Rightarrow> pyval \<times> int" where
  "pps_inner rad_array r0 t1 pc =
     (let r1 = np_maximum0 (frame_at rad_array t1)
      in (py_add (fst pc) (PyArray (np_multiply r0 r1)), snd pc + 1))"

definition pps_outer :: "ndstack \<Rightarrow> nat \<Rightarrow> pyval \<times> int \<Rightarrow> pyval \<times> int" where
  "pps_outer rad_array t0 pc =
     (let n_time_points = n_frames rad_array;
          r0 = np_maximum0 (frame_at rad_array t0)
      in if np_any r0 then fold (pps_inner rad_array r0) [t0..<n_time_points] pc
         else (fst pc, snd pc + (int n_time_points - int t0)))"

definition calculate_pairwise_product_sum :: "ndstack \<Rightarrow> error + pyval" where
  "calculate_pairwise_product_sum rad_array =
     bind_err (unpack_shape3 rad_array) (\<lambda>(n_time_points, height_m, width_m).
       let pc = fold (pps_outer rad_array) [0..<n_time_points] (PyScalar (Fin 0), 0);
           pps = py_div (fst pc) (real_of_int (max (snd pc) 1))
       in Inr pps)"

subsection \<open>calculate\_tac2\<close>

text \<open>
  \<open>centered[:-1]\<close> drops the last frame and \<open>centered[1:]\<close> the first; both are empty
  when there are no frames.
\<close>

definition calculate_tac2 :: "ndstack \<Rightarrow> ndarray" where
  "calculate_tac2 rad_array =
     (let mean = np_mean rad_array;
          centered = stack_sub rad_array mean;
          out_array = np_mean (stack_mul (NDStack (fshape centered) (butlast (frames centered)))
                                         (NDStack (fshape centered) (tl (frames centered))))
      in out_array)"

subsection \<open>calculate\_acrf\_\<close>

record acc =
  abcd :: ndarray
  abc :: ndarray
  ab :: ndarray
  cd :: ndarray
  ac :: ndarray
  bd :: ndarray
  ad :: ndarray
  bc :: ndarray

definition acc_zeros :: "nat \<Rightarrow> nat \<Rightarrow> acc" where
  "acc_zeros height_m width_m =
     \<lparr>abcd = np_zeros [height_m, width_m], abc = np_zeros [height_m, width_m],
      ab = np_zeros [height_m, width_m], cd = np_zeros [height_m, width_m],
      ac = np_zeros [height_m, width_m], bd = np_zeros [height_m, width_m],
      ad = np_zeros [height_m, width_m], bc = np_zeros [height_m, width_m]\<rparr>"

text \<open>
  The accumulation of one window at \<open>t\<close> (the same statements in both branches of the
  source): \<open>ab\<close> always, \<open>abc\<close> when the order is 3, the six order-4 sums when it is 4.
  Each read \<open>im[k]\<close> can raise IndexError.
\<close>

definition accumulate_ab :: "ndstack \<Rightarrow> ndarray \<Rightarrow> int \<Rightarrow> acc \<Rightarrow> error + acc" where
  "accumulate_ab im mean t A =
     bind_err (stack_get im t) (\<lambda>x0.
     bind_err (stack_get im (t + 1)) (\<lambda>x1.
       Inr (A\<lparr>ab := np_add (ab A) (np_multiply (np_sub x0 mean) (np_sub x1 mean))\<rparr>)))"

definition accumulate_abc :: "ndstack \<Rightarrow> ndarray \<Rightarrow> int \<Rightarrow> acc \<Rightarrow> error + acc" where
  "accumulate_abc im mean t A =
     bind_err (stack_get im t) (\<lambda>x0.
     bind_err (stack_get im (t + 1)) (\<lambda>x1.
     bind_err (stack_get im (t + 2)) (\<lambda>x2.
       Inr (A\<lparr>abc := np_add (np_add (abc A) (np_multiply (np_sub x0 mean) (np_sub x1 mean)))
                             (np_sub x2 mean)\<rparr>))))"

definition accumulate_abcd :: "ndstack \<Rightarrow> ndarray \<Rightarrow> int \<Rightarrow> acc \<Rightarrow> error + acc" where
  "accumulate_abcd im mean t A =
     bind_err (stack_get im t) (\<lambda>x0.
     bind_err (stack_get im (t + 1)) (\<lambda>x1.
     bind_err (stack_get im (t + 2)) (\<lambda>x2.
     bind_err (stack_get im (t + 3)) (\<lambda>x3.
       let a = np_sub x0 mean; b = np_sub x1 mean; c = np_sub x2 mean; d = np_sub x3 mean
       in Inr (A\<lparr>abcd := np_add (abcd A) (np_multiply (np_multiply (np_multiply a b) c) d),
                 cd := np_add (cd A) (np_multiply c d),
                 ac := np_add (ac A) (np_multiply a c),
                 bd := np_add (bd A) (np_multiply b d),
                 ad := np_add (ad A) (np_multiply a d),
                 bc := np_add (bc A) (np_multiply b c)\<rparr>)))))"

definition accumulate :: "ndstack \<Rightarrow> ndarray \<Rightarrow> int \<Rightarrow> int \<Rightarrow> acc \<Rightarrow> error + acc" where
  "accumulate im mean order t A =
     bind_err (accumulate_ab im mean t A) (\<lambda>A1.
     bind_err (if order = 3 then accumulate_abc im mean t A1 else Inr A1) (\<lambda>A2.
       if order = 4 then accumulate_abcd im mean t A2 else Inr A2))"

text \<open>The map computed from the sums, divided by the number of time points \<open>n\<close>.\<close>

definition acrf_out :: "int \<Rightarrow> acc \<Rightarrow> real \<Rightarrow> ndarray" where
  "acrf_out order A n =
     (if order = 3 then np_divide (np_absolute (abc A)) n
      else if order = 4 then
        np_divide (np_absolute (np_sub (np_sub (np_sub (abcd A) (np_multiply (ab A) (cd A)))
                                               (np_multiply (ac A) (bd A)))
                                       (np_multiply (ad A) (bc A)))) n
      else np_divide (np_absolute (ab A)) n)"

text \<open>
  The sliding-window loop of the branch without lag integration:
  \<open>t = 0; while t < n_time_points - order: ...; t = t + 1\<close>. It returns the final \<open>t\<close>
  (the number of iterations) with the sums. This branch never writes to \<open>im\<close>.
\<close>

function acrf_loop :: "ndstack \<Rightarrow> ndarray \<Rightarrow> int \<Rightarrow> int \<Rightarrow> int \<Rightarrow> acc \<Rightarrow> error + (int \<times> acc)" where
  "acrf_loop im mean order n_time_points t A =
     (if t < n_time_points - order then
        (case accumulate im mean order t A of
           Inl e \<Rightarrow> Inl e
         | Inr A' \<Rightarrow> acrf_loop im mean order n_time_points (t + 1) A')
      else Inr (t, A))"
  by pat_completeness auto
termination
  by (relation "measure (\<lambda>(im, mean, order, n_time_points, t, A). nat (n_time_points - order - t))") auto

declare acrf_loop.simps [simp del]

text \<open>
  The binning loop \<open>for _t in range(order-1): im[t] = im[t] + np.divide(im[tbin + _t], order)\<close>,
  which writes into the object \<open>im\<close> refers to. A raise leaves the store as it is then.
\<close>

fun bin_loop :: "ref \<Rightarrow> int \<Rightarrow> int \<Rightarrow> int \<Rightarrow> nat list \<Rightarrow> store \<Rightarrow> (error + unit) \<times> store" where
  "bin_loop im order t tbin [] st = (Inr (), st)"
| "bin_loop im order t tbin (k # ks) st =
     (case stack_get (st ! im) t of
        Inl e \<Rightarrow> (Inl e, st)
      | Inr cur \<Rightarrow>
          (case stack_get (st ! im) (tbin + int k) of
             Inl e \<Rightarrow> (Inl e, st)
           | Inr src \<Rightarrow>
               (case store_setitem st im t (np_add cur (np_divide src (real_of_int order))) of
                  Inl e \<Rightarrow> (Inl e, st)
                | Inr st' \<Rightarrow> bin_loop im order t tbin ks st')))"

text \<open>
  The inner loop of the lag-integration branch,
  \<open>while t < n_binned_time_points - order\<close>: accumulate, overwrite \<open>im[t]\<close> with zeros,
  and, when \<open>tbin = t * order\<close> is below the number of binned time points, add the
  binned slices. The number of binned time points is an integer in the first pass and a
  float afterwards; the model holds it as a real.
\<close>

function lag_inner ::
  "store \<Rightarrow> ref \<Rightarrow> ndarray \<Rightarrow> int \<Rightarrow> nat \<Rightarrow> nat \<Rightarrow> real \<Rightarrow> int \<Rightarrow> acc \<Rightarrow> (error + acc) \<times> store" where
  "lag_inner st im mean order height_m width_m n_binned_time_points t A =
     (if real_of_int t < n_binned_time_points - real_of_int order then
        (case accumulate (st ! im) mean order t A of
           Inl e \<Rightarrow> (Inl e, st)
         | Inr A' \<Rightarrow>
             (case store_setitem st im t (np_zeros [height_m, width_m]) of
                Inl e \<Rightarrow> (Inl e, st)
              | Inr st1 \<Rightarrow>
                  (case (if real_of_int (t * order) < n_binned_time_points
                         then bin_loop im order t (t * order) [0..<nat (order - 1)] st1
                         else (Inr (), st1)) of
                     (Inl e, st2) \<Rightarrow> (Inl e, st2)
                   | (Inr u, st2) \<Rightarrow>
                       lag_inner st2 im mean order height_m width_m n_binned_time_points (t + 1) A')))
      else (Inr A, st))"
  by pat_completeness auto
termination
  by (relation "measure (\<lambda>(st, im, mean, order, height_m, width_m, n, t, A).
                  nat \<lceil>n - real_of_int order - real_of_int t\<rceil>)") (auto, linarith)

declare lag_inner.simps [simp del]

text \<open>
  The outer loop of the lag-integration branch,
  \<open>while n_binned_time_points > order\<close>: a pass resets \<open>ab\<close>, runs the inner loop from
  \<open>t = 0\<close>, computes \<open>out_array\<close> and divides the number of binned time points by the
  order (ZeroDivisionError when the order is 0). The loop need not terminate (with
  order 1 the number never changes), so it is a partial function: \<open>None\<close> is a run that
  does not return.
\<close>

partial_function (option) lag_outer ::
  "store \<Rightarrow> ref \<Rightarrow> ndarray \<Rightarrow> int \<Rightarrow> nat \<Rightarrow> nat \<Rightarrow> real \<Rightarrow> acc \<Rightarrow> ndarray
     \<Rightarrow> ((error + ndarray) \<times> store) option" where
  "lag_outer st im mean order height_m width_m n_binned_time_points A out_array =
     (if n_binned_time_points > real_of_int order then
        (case lag_inner st im mean order height_m width_m n_binned_time_points 0
                (A\<lparr>ab := np_zeros [height_m, width_m]\<rparr>) of
           (Inl e, st') \<Rightarrow> Some (Inl e, st')
         | (Inr A', st') \<Rightarrow>
             if order = 0 then Some (Inl ZeroDivisionError, st')
             else lag_outer st' im mean order height_m width_m
                    (n_binned_time_points / real_of_int order) A'
                    (acrf_out order A' n_binned_time_points))
      else Some (Inr out_array, st))"

declare lag_outer.simps [code]

text \<open>
  The source's \<open>calculate_acrf_\<close> (a name cannot end in an underscore here).
  \<open>im = rad_array.copy()\<close> allocates the working copy; every write of the function goes
  to that object.
\<close>

definition calculate_acrf :: "store \<Rightarrow> ref \<Rightarrow> int \<Rightarrow> int \<Rightarrow> ((error + ndarray) \<times> store) option" where
  "calculate_acrf st rad_array order do_integrate_lag_times =
     (let (im, st1) = np_copy st rad_array
      in case unpack_shape3 (st1 ! im) of
           Inl e \<Rightarrow> Some (Inl e, st1)
         | Inr (n_time_points, height_m, width_m) \<Rightarrow>
             let mean = np_mean (st1 ! im);
                 out_array = np_zeros [height_m, width_m];
                 A = acc_zeros height_m width_m
             in if do_integrate_lag_times \<noteq> 1 then
                  (case acrf_loop (st1 ! im) mean order (int n_time_points) 0 A of
                     Inl e \<Rightarrow> Some (Inl e, st1)
                   | Inr (t, A') \<Rightarrow> Some (Inr (acrf_out order A' (real n_time_points)), st1))
                else lag_outer st1 im mean order height_m width_m (real n_time_points) A out_array)"

subsection \<open>The two entry points\<close>

text \<open>
  \<open>im = np.array(im, dtype='float32')\<close> allocates a new array, so the name \<open>im\<close> no
  longer refers to the caller's object.
\<close>

definition calculate_SRRF_temporal_correlations ::
  "store \<Rightarrow> ref \<Rightarrow> int \<Rightarrow> int \<Rightarrow> ((error + pyval) \<times> store) option" where
  "calculate_SRRF_temporal_correlations st im0 order do_integrate_lag_times =
     (let (im, st1) = np_copy st im0
      in if \<not> (ndim (st1 ! im) = 3 \<and> order \<le> 4) then Some (Inl AssertionError, st1)
         else if order = 0 then Some (map_sum id PyArray (np_amax (st1 ! im)), st1)
         else if order = 1 then Some (Inr (PyArray (np_mean (st1 ! im))), st1)
         else if order = - 1 then Some (calculate_pairwise_product_sum (st1 ! im), st1)
         else map_option (\<lambda>(r, st2). (map_sum id PyArray r, st2))
                (calculate_acrf st1 im order do_integrate_lag_times))"

definition correlation_error :: error where
  "correlation_error = ValueError ''Type of correlation must be AVG, VAR or TAC2''"

definition calculate_eSRRF_temporal_correlations ::
  "store \<Rightarrow> ref \<Rightarrow> string \<Rightarrow> (error + ndarray) \<times> store" where
  "calculate_eSRRF_temporal_correlations st im0 correlation =
     (let (im, st1) = np_copy st im0
      in if correlation = ''AVG'' then (Inr (np_mean (st1 ! im)), st1)
         else if correlation = ''VAR'' then (Inr (np_var (st1 ! im)), st1)
         else if correlation = ''TAC2'' then (Inr (calculate_tac2 (st1 ! im)), st1)
         else (Inl correlation_error, st1))"

subsection \<open>Predicates on stacks\<close>

fun f32_negative :: "f32 \<Rightarrow> bool" where
  "f32_negative (Fin x) = (x < 0)"
| "f32_negative NaN = False"

definition all_negative :: "ndstack \<Rightarrow> bool" where
  "all_negative s = list_all (list_all f32_negative) (frames s)"

section \<open>estimate\_shift.py\<close>

text \<open>
  \<open>GetMaxOptimizer\<close> calls three routines of scipy, a library outside the repository:
  \<open>interp2d\<close>, \<open>griddata\<close> and \<open>minimize\<close>. Their numerical work is not modelled; the
  model takes them as parameters, gathered in one record, and keeps a log of the
  library calls in the order they are made. Each call of \<open>interp2d\<close> and each call of
  \<open>griddata\<close> builds an interpolation structure from the samples it is given.
\<close>

datatype event = Call_interp2d | Call_griddata | Call_interpolator

type_synonym coords = "real \<times> real"

text \<open>
  \<open>minimize(..., method="Nelder-Mead")\<close> is a derivative-free search: it evaluates the
  objective at the start point, then at points chosen from the values seen so far,
  within a budget of evaluations fixed by \<open>maxiter\<close>, and reports a point \<open>x\<close> and a
  flag \<open>success\<close>. The choice of the points, the reported point and the flag are the
  parameters \<open>next_point\<close>, \<open>final_x\<close> and \<open>converged\<close>.
\<close>

record 'i scipy =
  interp2d :: "real list \<Rightarrow> real list \<Rightarrow> f32 list \<Rightarrow> error + 'i"
  interpolator_call :: "'i \<Rightarrow> real \<Rightarrow> real \<Rightarrow> error + f32"
  griddata :: "(nat \<times> nat) list \<Rightarrow> f32 list \<Rightarrow> coords \<Rightarrow> string \<Rightarrow> error + f32"
  eval_budget :: "nat \<Rightarrow> nat"
  next_point :: "(coords \<times> f32) list \<Rightarrow> coords option"
  final_x :: "(coords \<times> f32) list \<Rightarrow> coords"
  converged :: "(coords \<times> f32) list \<Rightarrow> bool"

record optimize_result =
  result_x :: coords
  result_success :: bool
  result_nfev :: nat

type_synonym 'a logged = "event list \<Rightarrow> (error + 'a) \<times> event list"

fun minimize_loop ::
  "'i scipy \<Rightarrow> (coords \<Rightarrow> f32 logged) \<Rightarrow> nat \<Rightarrow> (coords \<times> f32) list \<Rightarrow> (coords \<times> f32) list logged" where
  "minimize_loop lib f 0 hist lg = (Inr hist, lg)"
| "minimize_loop lib f (Suc budget) hist lg =
     (case next_point lib hist of
        None \<Rightarrow> (Inr hist, lg)
      | Some p \<Rightarrow>
          (case f p lg of
             (Inl e, lg') \<Rightarrow> (Inl e, lg')
           | (Inr v, lg') \<Rightarrow> minimize_loop lib f budget (hist @ [(p, v)]) lg'))"

definition minimize :: "'i scipy \<Rightarrow> (coords \<Rightarrow> f32 logged) \<Rightarrow> coords \<Rightarrow> nat \<Rightarrow> optimize_result logged" where
  "minimize lib f x0 maxiter lg =
     (case f x0 lg of
        (Inl e, lg') \<Rightarrow> (Inl e, lg')
      | (Inr v, lg') \<Rightarrow>
          (case minimize_loop lib f (eval_budget lib maxiter) [(x0, v)] lg' of
             (Inl e, lg'') \<Rightarrow> (Inl e, lg'')
           | (Inr hist, lg'') \<Rightarrow>
               (Inr \<lparr>result_x = final_x lib hist, result_success = converged lib hist,
                      result_nfev = length hist\<rparr>, lg'')))"

record 'i GetMaxOptimizer =
  slice_ccm :: ndarray
  self_w :: nat
  self_h :: nat
  interpolator :: 'i

text \<open>
  \<open>__init__\<close>. The first coordinate argument of \<open>interp2d\<close> is \<open>np.array(range(shape[0]))\<close>,
  the row indices; the second is \<open>np.array(shape[1])\<close>, an array holding the one number
  \<open>shape[1]\<close>; the third is the surface flattened. \<open>shape[1]\<close> raises IndexError on an
  array of fewer than two dimensions, and \<open>reshape\<close> raises ValueError when the array
  has more than \<open>shape[0] * shape[1]\<close> elements.
\<close>

definition reshape_flat :: "ndarray \<Rightarrow> error + f32 list" where
  "reshape_flat a =
     (case shape a of
        s0 # s1 # rest \<Rightarrow>
          if prod_list rest = 1 then Inr (data a) else Inl (ValueError ''cannot reshape array'')
      | _ \<Rightarrow> Inl IndexError)"

definition GetMaxOptimizer_init :: "'i scipy \<Rightarrow> ndarray \<Rightarrow> 'i GetMaxOptimizer logged" where
  "GetMaxOptimizer_init lib ccm lg =
     (case shape ccm of
        s0 # s1 # rest \<Rightarrow>
          (case reshape_flat ccm of
             Inl e \<Rightarrow> (Inl e, lg)
           | Inr z \<Rightarrow>
               (case interp2d lib (map real [0..<s0]) [real s1] z of
                  Inl e \<Rightarrow> (Inl e, lg @ [Call_interp2d])
                | Inr i \<Rightarrow> (Inr \<lparr>slice_ccm = ccm, self_w = s1, self_h = s0, interpolator = i\<rparr>,
                             lg @ [Call_interp2d])))
      | _ \<Rightarrow> (Inl IndexError, lg))"

fun f32_neg :: "f32 \<Rightarrow> f32" where
  "f32_neg (Fin v) = Fin (- v)"
| "f32_neg NaN = NaN"

text \<open>
  \<open>get_interpolated_px_value\<close>: the list of all grid points \<open>(y, x)\<close>, the flattened
  surface, and one call of \<open>griddata\<close> on them.
\<close>

definition get_interpolated_px_value :: "'i scipy \<Rightarrow> 'i GetMaxOptimizer \<Rightarrow> coords \<Rightarrow> f32 logged" where
  "get_interpolated_px_value lib self cs lg =
     (case shape (slice_ccm self) of
        s0 # s1 # rest \<Rightarrow>
          (let points = List.product [0..<s0] [0..<s1]
           in case reshape_flat (slice_ccm self) of
                Inl e \<Rightarrow> (Inl e, lg)
              | Inr values \<Rightarrow>
                  (map_sum id f32_neg (griddata lib points values cs ''cubic''),
                   lg @ [Call_griddata]))
      | _ \<Rightarrow> (Inl IndexError, lg))"

definition get_interpolated_px_value_optimized ::
  "'i scipy \<Rightarrow> 'i GetMaxOptimizer \<Rightarrow> coords \<Rightarrow> f32 logged" where
  "get_interpolated_px_value_optimized lib self cs lg =
     (map_sum id f32_neg (interpolator_call lib (interpolator self) (fst cs) (snd cs)),
      lg @ [Call_interpolator])"

text \<open>
  \<open>argmax\<close> of the flattened surface (the first index of a largest value; a \<open>NaN\<close> counts
  as largest; ValueError on an empty array) and \<open>np.unravel_index\<close>, whose result is
  unpacked into two names, so the surface must have two dimensions.
\<close>

fun f32_greater :: "f32 \<Rightarrow> f32 \<Rightarrow> bool" where
  "f32_greater (Fin a) (Fin b) = (a > b)"
| "f32_greater NaN (Fin b) = True"
| "f32_greater _ NaN = False"

fun argmax_from :: "f32 list \<Rightarrow> nat \<Rightarrow> nat \<Rightarrow> f32 \<Rightarrow> nat" where
  "argmax_from [] i best bv = best"
| "argmax_from (v # vs) i best bv =
     (if f32_greater v bv then argmax_from vs (Suc i) i v else argmax_from vs (Suc i) best bv)"

definition argmax :: "ndarray \<Rightarrow> error + nat" where
  "argmax a = (case data a of
                 [] \<Rightarrow> Inl (ValueError ''attempt to get argmax of an empty sequence'')
               | v # vs \<Rightarrow> Inr (argmax_from vs 1 0 v))"

definition unravel_index2 :: "nat \<Rightarrow> nat list \<Rightarrow> error + (nat \<times> nat)" where
  "unravel_index2 i sh =
     (case sh of
        [s0, s1] \<Rightarrow> Inr (i div s1, i mod s1)
      | [] \<Rightarrow> Inl (ValueError ''not enough values to unpack'')
      | [s0] \<Rightarrow> Inl (ValueError ''not enough values to unpack'')
      | _ \<Rightarrow> Inl (ValueError ''too many values to unpack''))"

text \<open>
  \<open>get_max\<close>: the objective handed to \<open>minimize\<close> is \<open>self.get_interpolated_px_value\<close>;
  the point \<open>minimizer.x\<close> is returned whatever \<open>minimizer.success\<close> says. (The fields
  \<open>x\<close>, \<open>success\<close> of the result and \<open>w\<close>, \<open>h\<close> of the object carry a prefix here.)
\<close>

definition get_max :: "'i scipy \<Rightarrow> 'i GetMaxOptimizer \<Rightarrow> coords logged" where
  "get_max lib self lg =
     (case bind_err (argmax (slice_ccm self)) (\<lambda>i. unravel_index2 i (shape (slice_ccm self))) of
        Inl e \<Rightarrow> (Inl e, lg)
      | Inr (y_max, x_max) \<Rightarrow>
          (case minimize lib (get_interpolated_px_value lib self) (real y_max, real x_max) 1000 lg of
             (Inl e, lg') \<Rightarrow> (Inl e, lg')
           | (Inr minimizer, lg') \<Rightarrow> (Inr (result_x minimizer), lg')))"

text \<open>
  Modelled from the spec: \<open>locate_max\<close> is the construction of a \<open>GetMaxOptimizer\<close> on
  the surface followed by \<open>get_max\<close>; the caller that does this is not among the
  sources.
\<close>

definition locate_max :: "'i scipy \<Rightarrow> ndarray \<Rightarrow> coords logged" where
  "locate_max lib surface lg =
     (case GetMaxOptimizer_init lib surface lg of
        (Inl e, lg') \<Rightarrow> (Inl e, lg')
      | (Inr self, lg') \<Rightarrow> get_max lib self lg')"

text \<open>
  A stand-in for the library, for running the model. Its \<open>interp2d\<close> makes the checks
  of scipy's \<open>interp2d\<close> (scipy before 1.14, with the default linear kind) on the sizes
  of its arguments: on a regular grid, \<open>z.size = len(x) * len(y)\<close>, the spline fit needs
  more than one coordinate on each axis; otherwise \<open>x\<close>, \<open>y\<close> and \<open>z\<close> must have one
  length, and the fit needs at least four points. (From scipy 1.14 on every call of
  \<open>interp2d\<close> raises.) The interpolators return 0 and the search evaluates three points.
\<close>

definition stub_interp2d :: "real list \<Rightarrow> real list \<Rightarrow> f32 list \<Rightarrow> error + unit" where
  "stub_interp2d xs ys zs =
     (if length zs = length xs * length ys then
        (if 1 < length xs \<and> 1 < length ys then Inr ()
         else Inl (LibraryError ''dfitpack.error: (mx>kx) or (my>ky) failed''))
      else if length xs \<noteq> length ys then
        Inl (ValueError ''x and y must have equal lengths for non rectangular grid'')
      else if length zs \<noteq> length xs then
        Inl (ValueError ''Invalid length for input z for non rectangular grid'')
      else if length xs < 4 then
        Inl (LibraryError ''TypeError: m >= (kx+1)(ky+1) must hold'')
      else Inr ())"

definition stub_lib :: "unit scipy" where
  "stub_lib =
     \<lparr>interp2d = stub_interp2d,
      interpolator_call = (\<lambda>i a b. Inr (Fin 0)),
      griddata = (\<lambda>points values cs method. Inr (Fin 0)),
      eval_budget = (\<lambda>maxiter. 200 * 2),
      next_point = (\<lambda>hist. if length hist < 3 then Some (fst (fst (last hist)) + 1, snd (fst (last hist))) else None),
      final_x = (\<lambda>hist. fst (hd hist)),
      converged = (\<lambda>hist. False)\<rparr>"

section \<open>Properties of the cumulant computation\<close>

lemma np_copy_read: "np_copy st r = (im, st1) \<Longrightarrow> st1 ! im = st ! r"
  by (auto simp: np_copy_def)

lemma np_zeros_ops:
  "np_add (np_zeros sh) (np_zeros sh) = np_zeros sh"
  "np_sub (np_zeros sh) (np_zeros sh) = np_zeros sh"
  "np_multiply (np_zeros sh) (np_zeros sh) = np_zeros sh"
  "np_absolute (np_zeros sh) = np_zeros sh"
  "n \<noteq> 0 \<Longrightarrow> np_divide (np_zeros sh) n = np_zeros sh"
  by (simp_all add: np_add_def np_sub_def np_multiply_def np_absolute_def np_divide_def
      np_zeros_def)

lemma acrf_out_zeros: "n \<noteq> 0 \<Longrightarrow> acrf_out order (acc_zeros h w) n = np_zeros [h, w]"
  by (simp add: acrf_out_def acc_zeros_def np_zeros_ops)

text \<open>With no more frames than the order, the window loop does not run.\<close>

lemma acrf_loop_no_window:
  "n_time_points \<le> order \<Longrightarrow> acrf_loop im mean order n_time_points 0 A = Inr (0, A)"
  by (subst acrf_loop.simps) simp

lemma lag_outer_no_pass:
  "n \<le> real_of_int order \<Longrightarrow> lag_outer st im mean order h w n A out = Some (Inr out, st)"
  by (subst lag_outer.simps) simp

lemma calculate_acrf_T_eq_order:
  assumes "fshape (st ! r) = [h, w]" and "int (n_frames (st ! r)) = order" and "order \<noteq> 0"
  shows "calculate_acrf st r order lag = Some (Inr (np_zeros [h, w]), st @ [st ! r])"
proof -
  have T: "real (n_frames (st ! r)) \<noteq> 0" using assms(2,3) by auto
  have le: "real (n_frames (st ! r)) \<le> real_of_int order" using assms(2) by auto
  show ?thesis
    using assms(1,2) T
    by (simp add: calculate_acrf_def unpack_shape3_def acrf_loop_no_window lag_outer_no_pass [OF le]
        acrf_out_zeros np_copy_def Let_def)
qed

lemma SRRF_T_eq_order:
  assumes "fshape (st ! r) = [h, w]" and "int (n_frames (st ! r)) = order"
      and "order \<in> {2, 3, 4}"
  shows "calculate_SRRF_temporal_correlations st r order lag
           = Some (Inr (PyArray (np_zeros [h, w])), st @ [st ! r, st ! r])"
proof -
  have o: "order \<noteq> 0" "order \<noteq> 1" "order \<noteq> - 1" "order \<le> 4" using assms(3) by auto
  have "calculate_acrf (st @ [st ! r]) (length st) order lag
          = Some (Inr (np_zeros [h, w]), (st @ [st ! r]) @ [(st @ [st ! r]) ! length st])"
    by (rule calculate_acrf_T_eq_order) (use assms o in simp_all)
  then show ?thesis
    using o assms(1) by (simp add: calculate_SRRF_temporal_correlations_def ndim_def np_copy_def)
qed

text \<open>
  C3. For a three-dimensional stack with exactly \<open>T = order\<close> frames and a cumulant
  order 2, 3 or 4, the sliding-window loop runs zero times (it returns at \<open>t = 0\<close> with the
  sums untouched) and the entry point returns the all-zero map of shape \<open>H \<times> W\<close>, with
  no error, whatever the lag-integration flag.
\<close>

theorem cumulant_T_eq_order_all_zero:
  assumes "fshape (st ! r) = [h, w]" and "int (n_frames (st ! r)) = order"
      and "order \<in> {2, 3, 4}"
  shows "acrf_loop (st ! r) (np_mean (st ! r)) order (int (n_frames (st ! r))) 0 (acc_zeros h w)
           = Inr (0, acc_zeros h w)
       \<and> (\<exists>st'. calculate_SRRF_temporal_correlations st r order lag
                  = Some (Inr (PyArray (np_zeros [h, w])), st'))"
  using assms SRRF_T_eq_order [OF assms, of lag] by (simp add: acrf_loop_no_window)

theorem cumulant_T_eq_order_all_zero_witness:
  "fshape ([NDStack [1, 2] [[Fin 3, Fin 5], [Fin 4, Fin 1]]] ! 0) = [1, 2]
   \<and> int (n_frames ([NDStack [1, 2] [[Fin 3, Fin 5], [Fin 4, Fin 1]]] ! 0)) = 2
   \<and> (2::int) \<in> {2, 3, 4}
   \<and> (\<exists>st'. calculate_SRRF_temporal_correlations [NDStack [1, 2] [[Fin 3, Fin 5], [Fin 4, Fin 1]]] 0 2 1
              = Some (Inr (PyArray (NDArray [1, 2] [Fin 0, Fin 0])), st'))"
  using cumulant_T_eq_order_all_zero [of "[NDStack [1, 2] [[Fin 3, Fin 5], [Fin 4, Fin 1]]]" 0 1 2 2 1]
  by (simp add: n_frames_def np_zeros_def numeral_2_eq_2)

text \<open>
  C2, as stated, fails: on the stack \<open>[A, A + 1]\<close> with the single pixel \<open>A = 0\<close> the
  order-2 cumulant without lag integration is 0, not 0.5.
\<close>

theorem cumulant2_shifted_pair_counterexample:
  "fst (the (calculate_SRRF_temporal_correlations [NDStack [1, 1] [[Fin 0], [Fin 1]]] 0 2 0))
     = Inr (PyArray (NDArray [1, 1] [Fin 0]))
   \<and> fst (the (calculate_SRRF_temporal_correlations [NDStack [1, 1] [[Fin 0], [Fin 1]]] 0 2 0))
     \<noteq> Inr (PyArray (NDArray [1, 1] [Fin (1 / 2)]))"
  by code_simp

text \<open>
  C2, amended. For every frame \<open>A\<close> of shape \<open>H \<times> W\<close>, the order-2 cumulant without lag
  integration of the two-frame stack \<open>[A, A + 1]\<close> is the all-zero map of shape \<open>H \<times> W\<close>:
  with two frames and order 2 no window fits.
\<close>

theorem cumulant2_shifted_pair_all_zero:
  assumes "st ! r = NDStack [h, w] [A, map (\<lambda>x. f32_add x (Fin 1)) A]"
      and "do_integrate_lag_times \<noteq> 1"
  shows "\<exists>st'. calculate_SRRF_temporal_correlations st r 2 do_integrate_lag_times
                 = Some (Inr (PyArray (np_zeros [h, w])), st')"
proof -
  have "fshape (st ! r) = [h, w]" and "int (n_frames (st ! r)) = 2"
    using assms(1) by (simp_all add: n_frames_def)
  then show ?thesis
    using SRRF_T_eq_order [of st r h w 2 do_integrate_lag_times] by simp
qed

theorem cumulant2_shifted_pair_all_zero_witness:
  "[NDStack [1, 2] [[Fin 3, Fin 5], [Fin 4, Fin 6]]] ! 0
     = NDStack [1, 2] [[Fin 3, Fin 5], map (\<lambda>x. f32_add x (Fin 1)) [Fin 3, Fin 5]]
   \<and> (0::int) \<noteq> 1
   \<and> (\<exists>st'. calculate_SRRF_temporal_correlations [NDStack [1, 2] [[Fin 3, Fin 5], [Fin 4, Fin 6]]] 0 2 0
              = Some (Inr (PyArray (NDArray [1, 2] [Fin 0, Fin 0])), st'))"
  using cumulant2_shifted_pair_all_zero [of "[NDStack [1, 2] [[Fin 3, Fin 5], [Fin 4, Fin 6]]]" 0 1 2 "[Fin 3, Fin 5]" 0]
  by (simp add: np_zeros_def numeral_2_eq_2)

section \<open>Properties of the pairwise product sum\<close>

lemma f32_max_negative: "f32_negative x \<Longrightarrow> f32_max x (Fin 0) = Fin 0"
  by (cases x) auto

lemma np_any_maximum0_negative:
  "list_all f32_negative f \<Longrightarrow> \<not> np_any (np_maximum0 (NDArray sh f))"
  by (induction f) (auto simp: np_any_def np_maximum0_def f32_max_negative)

text \<open>A frame clipped to all zeros takes the \<open>else\<close> branch: only the counter moves.\<close>

lemma pps_outer_negative:
  assumes "all_negative s" and "t0 < n_frames s"
  shows "pps_outer s t0 (p, c) = (p, c + (int (n_frames s) - int t0))"
proof -
  have "list_all f32_negative (frames s ! t0)"
    using assms by (simp add: all_negative_def n_frames_def list_all_length)
  then show ?thesis
    by (simp add: pps_outer_def frame_at_def np_any_maximum0_negative)
qed

lemma fold_pps_outer_negative:
  assumes "all_negative s" and "\<forall>t \<in> set ts. t < n_frames s"
  shows "fst (fold (pps_outer s) ts (p, c)) = p"
  using assms(2)
proof (induction ts arbitrary: c)
  case Nil
  then show ?case by simp
next
  case (Cons t ts)
  then show ?case by (simp add: pps_outer_negative [OF assms(1)])
qed

lemma pairwise_all_negative:
  assumes "fshape s = [h, w]" and "all_negative s"
  shows "calculate_pairwise_product_sum s = Inr (PyScalar (Fin 0))"
proof -
  have "fst (fold (pps_outer s) [0..<n_frames s] (PyScalar (Fin 0), 0)) = PyScalar (Fin 0)"
    by (rule fold_pps_outer_negative [OF assms(2)]) simp
  then show ?thesis
    using assms(1)
    by (simp add: calculate_pairwise_product_sum_def unpack_shape3_def bind_err_def Let_def)
qed

text \<open>
  C4. On a non-empty stack of shape \<open>(T, H, W)\<close> whose pixels are all strictly negative,
  \<open>pps\<close> is never added to an array: the function returns the Python number \<open>0.0\<close>, not
  the \<open>H \<times> W\<close> array of zeros that the claim describes and that \<open>out_array\<close> is first
  bound to. The same value comes back through the entry point with order \<open>-1\<close>.
\<close>

theorem pairwise_all_negative_returns_scalar:
  assumes "fshape (st ! r) = [h, w]" and "frames (st ! r) \<noteq> []" and "all_negative (st ! r)"
  shows "calculate_pairwise_product_sum (st ! r) = Inr (PyScalar (Fin 0))
       \<and> calculate_pairwise_product_sum (st ! r) \<noteq> Inr (PyArray (np_zeros [h, w]))
       \<and> calculate_SRRF_temporal_correlations st r (- 1) lag
           = Some (Inr (PyScalar (Fin 0)), st @ [st ! r])"
  using assms pairwise_all_negative [of "st ! r" h w]
  by (simp add: calculate_SRRF_temporal_correlations_def np_copy_def ndim_def)

theorem pairwise_all_negative_returns_scalar_witness:
  "fshape ([NDStack [1, 1] [[Fin (- 1)]]] ! 0) = [1, 1]
   \<and> frames ([NDStack [1, 1] [[Fin (- 1)]]] ! 0) \<noteq> []
   \<and> all_negative ([NDStack [1, 1] [[Fin (- 1)]]] ! 0)
   \<and> calculate_pairwise_product_sum (NDStack [1, 1] [[Fin (- 1)]]) = Inr (PyScalar (Fin 0))
   \<and> calculate_pairwise_product_sum (NDStack [1, 1] [[Fin (- 1)]])
        \<noteq> Inr (PyArray (NDArray [1, 1] [Fin 0]))"
  using pairwise_all_negative_returns_scalar [of "[NDStack [1, 1] [[Fin (- 1)]]]" 0 1 1 0]
  by (simp add: all_negative_def)

section \<open>Which errors the entry points raise\<close>

lemma stack_get_error: "stack_get s t = Inl e \<Longrightarrow> e = IndexError"
  by (auto simp: stack_get_def Let_def split: if_splits)

lemma stack_set_error: "stack_set s t v = Inl e \<Longrightarrow> e = IndexError"
  by (auto simp: stack_set_def Let_def split: if_splits)

lemma store_setitem_error: "store_setitem st r t v = Inl e \<Longrightarrow> e = IndexError"
  by (auto simp: store_setitem_def dest: stack_set_error split: sum.splits)

lemma accumulate_error: "accumulate im mean order t A = Inl e \<Longrightarrow> e = IndexError"
  by (auto simp: accumulate_def accumulate_ab_def accumulate_abc_def accumulate_abcd_def
      bind_err_def Let_def dest: stack_get_error split: sum.splits if_splits)

lemma acrf_loop_error: "acrf_loop im mean order n t A = Inl e \<Longrightarrow> e = IndexError"
proof (induction im mean order n t A rule: acrf_loop.induct)
  case (1 im mean order n t A)
  from "1.prems" show ?case
    by (subst (asm) acrf_loop.simps)
      (auto dest: accumulate_error "1.IH" split: if_splits sum.splits)
qed

lemma bin_loop_error: "bin_loop im order t tbin ks st = (Inl e, st') \<Longrightarrow> e = IndexError"
  by (induction ks arbitrary: st)
    (auto dest: stack_get_error store_setitem_error split: sum.splits)

lemma lag_inner_error:
  "lag_inner st im mean order h w n t A = (Inl e, st') \<Longrightarrow> e = IndexError"
proof (induction st im mean order h w n t A rule: lag_inner.induct)
  case (1 st im mean order h w n t A)
  from "1.prems" show ?case
    by (subst (asm) lag_inner.simps)
      (auto dest: accumulate_error store_setitem_error bin_loop_error "1.IH"
        split: if_splits sum.splits prod.splits)
qed

lemma lag_outer_error_aux:
  assumes "lag_outer st im mean order h w n A out = Some y"
  shows "case fst y of Inl e \<Rightarrow> e = IndexError \<or> e = ZeroDivisionError | Inr x \<Rightarrow> True"
  using assms
proof (rule lag_outer.raw_induct [rotated])
  fix f st im mean order h w n A out y
  assume IH: "\<And>st im mean order h w n A out y.
                 f st im mean order h w n A out = Some y \<Longrightarrow>
                 (case fst y of Inl e \<Rightarrow> e = IndexError \<or> e = ZeroDivisionError | Inr x \<Rightarrow> True)"
    and step: "(if real_of_int order < n
        then case lag_inner st im mean order h w n 0 (A\<lparr>ab := np_zeros [h, w]\<rparr>) of
             (Inl e, st') \<Rightarrow> Some (Inl e, st')
             | (Inr A', st') \<Rightarrow>
                 if order = 0 then Some (Inl ZeroDivisionError, st')
                 else f st' im mean order h w (n / real_of_int order) A' (acrf_out order A' n)
        else Some (Inr out, st)) = Some y"
  from step show "case fst y of Inl e \<Rightarrow> e = IndexError \<or> e = ZeroDivisionError | Inr x \<Rightarrow> True"
    by (auto dest: lag_inner_error IH split: if_splits sum.splits prod.splits)
qed

lemma lag_outer_error:
  "lag_outer st im mean order h w n A out = Some (Inl e, st') \<Longrightarrow>
     e = IndexError \<or> e = ZeroDivisionError"
  by (drule lag_outer_error_aux) simp

lemma unpack_shape3_error:
  "unpack_shape3 s = Inl e \<Longrightarrow>
     e = ValueError ''not enough values to unpack'' \<or> e = ValueError ''too many values to unpack''"
  by (auto simp: unpack_shape3_def split: list.splits)

lemma unpack_shape3_ndim: "ndim s = 3 \<Longrightarrow> \<exists>h w. unpack_shape3 s = Inr (n_frames s, h, w) \<and> fshape s = [h, w]"
  by (auto simp: unpack_shape3_def ndim_def split: list.splits)

lemma calculate_acrf_error:
  assumes "calculate_acrf st r order lag = Some (Inl e, st')" and "ndim (st ! r) = 3"
  shows "e = IndexError \<or> e = ZeroDivisionError"
proof -
  obtain h w where u: "unpack_shape3 (st ! r) = Inr (n_frames (st ! r), h, w)"
    using unpack_shape3_ndim [OF assms(2)] by blast
  from assms(1) show ?thesis
    by (auto simp: calculate_acrf_def np_copy_def u Let_def
        dest: acrf_loop_error lag_outer_error split: if_splits sum.splits prod.splits)
qed

lemma pairwise_error:
  "ndim s = 3 \<Longrightarrow> \<exists>v. calculate_pairwise_product_sum s = Inr v"
  using unpack_shape3_ndim [of s]
  by (auto simp: calculate_pairwise_product_sum_def bind_err_def Let_def)

lemma np_amax_error: "np_amax s = Inl e \<Longrightarrow> e \<noteq> correlation_error \<and> e \<noteq> AssertionError"
  by (auto simp: np_amax_def correlation_error_def split: list.splits if_splits)

lemma map_sum_id_Inl: "map_sum id g x = Inl e \<longleftrightarrow> x = Inl e"
  by (cases x) auto

lemma SRRF_error_kinds:
  assumes "calculate_SRRF_temporal_correlations st r order lag = Some (Inl e, st')"
  shows "e \<noteq> correlation_error \<and> (e = AssertionError \<longleftrightarrow> \<not> (ndim (st ! r) = 3 \<and> order \<le> 4))"
proof (cases "ndim (st ! r) = 3 \<and> order \<le> 4")
  case False
  with assms show ?thesis
    by (auto simp: calculate_SRRF_temporal_correlations_def np_copy_def correlation_error_def)
next
  case True
  then have nd: "ndim ((st @ [st ! r]) ! length st) = 3" by simp
  show ?thesis
  proof (cases "order = 0 \<or> order = 1 \<or> order = - 1")
    case True
    with \<open>ndim (st ! r) = 3 \<and> order \<le> 4\<close> assms pairwise_error [of "st ! r"] show ?thesis
      by (auto simp: calculate_SRRF_temporal_correlations_def np_copy_def map_sum_id_Inl
          dest: np_amax_error split: sum.splits)
  next
    case False
    with \<open>ndim (st ! r) = 3 \<and> order \<le> 4\<close> assms
    obtain st2 where "calculate_acrf (st @ [st ! r]) (length st) order lag = Some (Inl e, st2)"
      by (auto simp: calculate_SRRF_temporal_correlations_def np_copy_def map_sum_id_Inl
          split: sum.splits)
    from calculate_acrf_error [OF this nd] \<open>ndim (st ! r) = 3 \<and> order \<le> 4\<close> show ?thesis
      by (auto simp: correlation_error_def)
  qed
qed

lemma accumulate_ok:
  assumes "0 \<le> t" and "t < int (n_frames im) - order" and "order \<in> {2, 3, 4}"
  shows "\<exists>A'. accumulate im mean order t A = Inr A'"
  using assms
  by (auto simp: accumulate_def accumulate_ab_def accumulate_abc_def accumulate_abcd_def
      bind_err_def stack_get_def Let_def)

lemma acrf_loop_ok:
  "order \<in> {2, 3, 4} \<Longrightarrow> n = int (n_frames im) \<Longrightarrow> 0 \<le> t \<Longrightarrow>
     \<exists>t' A'. acrf_loop im mean order n t A = Inr (t', A')"
proof (induction im mean order n t A rule: acrf_loop.induct)
  case (1 im mean order n t A)
  show ?case
  proof (cases "t < n - order")
    case True
    then obtain A' where a: "accumulate im mean order t A = Inr A'"
      using accumulate_ok [of t im order mean A] "1.prems" by auto
    have "\<exists>t' A''. acrf_loop im mean order n (t + 1) A' = Inr (t', A'')"
      using "1.IH" [OF True a] "1.prems" by simp
    then show ?thesis
      using True a by (subst acrf_loop.simps) simp
  next
    case False
    then show ?thesis by (subst acrf_loop.simps) simp
  qed
qed

lemma calculate_acrf_no_lag:
  assumes "unpack_shape3 (st ! r) = Inr (T, h, w)" and "lag \<noteq> 1"
  shows "calculate_acrf st r order lag =
           (case acrf_loop (st ! r) (np_mean (st ! r)) order (int T) 0 (acc_zeros h w) of
              Inl e \<Rightarrow> Some (Inl e, st @ [st ! r])
            | Inr (t, A') \<Rightarrow> Some (Inr (acrf_out order A' (real T)), st @ [st ! r]))"
  using assms by (simp add: calculate_acrf_def np_copy_def Let_def)

lemma SRRF_dispatch:
  assumes "ndim (st ! r) = 3" and "order \<le> 4" and "order \<notin> {0, 1, - 1}"
  shows "calculate_SRRF_temporal_correlations st r order lag
           = map_option (\<lambda>(res, st2). (map_sum id PyArray res, st2))
               (calculate_acrf (st @ [st ! r]) (length st) order lag)"
  using assms by (simp add: calculate_SRRF_temporal_correlations_def np_copy_def)

lemma SRRF_cumulant_no_frame_check:
  assumes "ndim (st ! r) = 3" and "order \<in> {2, 3, 4}" and "lag \<noteq> 1"
  shows "\<exists>out st'. calculate_SRRF_temporal_correlations st r order lag
                     = Some (Inr (PyArray out), st')"
proof -
  obtain h w where u: "unpack_shape3 (st ! r) = Inr (n_frames (st ! r), h, w)"
    using unpack_shape3_ndim [OF assms(1)] by blast
  obtain t' A' where l: "acrf_loop (st ! r) (np_mean (st ! r)) order (int (n_frames (st ! r))) 0
                           (acc_zeros h w) = Inr (t', A')"
    using acrf_loop_ok [OF assms(2), of "int (n_frames (st ! r))" "st ! r" 0 "np_mean (st ! r)" "acc_zeros h w"]
    by auto
  have o: "order \<le> 4" "order \<notin> {0, 1, - 1}" using assms(2) by auto
  have "calculate_acrf (st @ [st ! r]) (length st) order lag
          = Some (Inr (acrf_out order A' (real (n_frames (st ! r)))), (st @ [st ! r]) @ [st ! r])"
    using calculate_acrf_no_lag [of "st @ [st ! r]" "length st" "n_frames (st ! r)" h w lag order] u l assms(3)
    by simp
  then show ?thesis
    using SRRF_dispatch [OF assms(1) o, of lag] by simp
qed

text \<open>
  C9. The SRRF entry point has no unknown-kind check: once the assertion passes, every
  order other than 0, 1 and \<open>-1\<close> (negative ones too) goes to the cumulant computation,
  whose outcome it returns; it never raises the error that names AVG, VAR and TAC2,
  which only the eSRRF entry point raises.
\<close>

theorem SRRF_has_no_kind_validation:
  "(ndim (st ! r) = 3 \<and> order \<le> 4 \<and> order \<notin> {0, 1, - 1} \<longrightarrow>
      calculate_SRRF_temporal_correlations st r order lag
        = map_option (\<lambda>(res, st2). (map_sum id PyArray res, st2))
            (calculate_acrf (st @ [st ! r]) (length st) order lag))
   \<and> calculate_SRRF_temporal_correlations st r order lag \<noteq> Some (Inl correlation_error, st')
   \<and> (correlation \<notin> {''AVG'', ''VAR'', ''TAC2''} \<longrightarrow>
        fst (calculate_eSRRF_temporal_correlations st r correlation) = Inl correlation_error)"
proof (intro conjI impI)
  assume "ndim (st ! r) = 3 \<and> order \<le> 4 \<and> order \<notin> {0, 1, - 1}"
  then show "calculate_SRRF_temporal_correlations st r order lag
        = map_option (\<lambda>(res, st2). (map_sum id PyArray res, st2))
            (calculate_acrf (st @ [st ! r]) (length st) order lag)"
    by (simp add: calculate_SRRF_temporal_correlations_def np_copy_def)
next
  show "calculate_SRRF_temporal_correlations st r order lag \<noteq> Some (Inl correlation_error, st')"
    using SRRF_error_kinds [of st r order lag correlation_error st'] by blast
next
  assume "correlation \<notin> {''AVG'', ''VAR'', ''TAC2''}"
  then show "fst (calculate_eSRRF_temporal_correlations st r correlation) = Inl correlation_error"
    by (simp add: calculate_eSRRF_temporal_correlations_def np_copy_def)
qed

theorem SRRF_has_no_kind_validation_witness:
  "(ndim ([NDStack [1, 1] [[Fin 0], [Fin 1], [Fin 0]]] ! 0) = 3 \<and> (- 2 :: int) \<le> 4
      \<and> (- 2 :: int) \<notin> {0, 1, - 1})
   \<and> calculate_acrf ([NDStack [1, 1] [[Fin 0], [Fin 1], [Fin 0]]] @ [[NDStack [1, 1] [[Fin 0], [Fin 1], [Fin 0]]] ! 0]) 
         (length [NDStack [1, 1] [[Fin 0], [Fin 1], [Fin 0]]]) (- 2) 0
       = Some (Inl IndexError, replicate 3 (NDStack [1, 1] [[Fin 0], [Fin 1], [Fin 0]]))
   \<and> calculate_SRRF_temporal_correlations [NDStack [1, 1] [[Fin 0], [Fin 1], [Fin 0]]] 0 (- 2) 0
       = Some (Inl IndexError, replicate 3 (NDStack [1, 1] [[Fin 0], [Fin 1], [Fin 0]]))
   \<and> ''CUMULANT2'' \<notin> {''AVG'', ''VAR'', ''TAC2''}
   \<and> fst (calculate_eSRRF_temporal_correlations [NDStack [1, 1] [[Fin 0], [Fin 1], [Fin 0]]] 0 ''CUMULANT2'')
       = Inl correlation_error"
proof -
  have a: "calculate_acrf ([NDStack [1, 1] [[Fin 0], [Fin 1], [Fin 0]]] @ [[NDStack [1, 1] [[Fin 0], [Fin 1], [Fin 0]]] ! 0]) 
         (length [NDStack [1, 1] [[Fin 0], [Fin 1], [Fin 0]]]) (- 2) 0
       = Some (Inl IndexError, replicate 3 (NDStack [1, 1] [[Fin 0], [Fin 1], [Fin 0]]))"
    by code_simp
  show ?thesis
    using SRRF_has_no_kind_validation [of "[NDStack [1, 1] [[Fin 0], [Fin 1], [Fin 0]]]" 0 "- 2" 0 "[]" "''CUMULANT2''"] a
    by (simp add: ndim_def)
qed

text \<open>
  C5, as stated, fails: the unknown-kind check is not the only validated error, and a
  shape mismatch can raise. The SRRF entry point asserts the number of dimensions: a
  two-dimensional array makes it raise AssertionError.
\<close>

theorem only_validated_error_counterexample:
  "calculate_SRRF_temporal_correlations [NDStack [2] [[Fin 1, Fin 2]]] 0 1 0
     = Some (Inl AssertionError, [NDStack [2] [[Fin 1, Fin 2]], NDStack [2] [[Fin 1, Fin 2]]])"
  by code_simp

text \<open>
  C5, amended. The eSRRF entry point raises the ValueError that names AVG, VAR and TAC2
  if and only if the kind is outside that set. It is not the only validated error: the
  SRRF entry point raises AssertionError if and only if the stack is not
  three-dimensional or the order exceeds 4. The number of frames is not checked: on a
  three-dimensional stack the cumulants of order 2, 3 and 4 without lag integration
  return a map for any number of frames, also fewer than the order needs.
\<close>

theorem validated_errors:
  "(fst (calculate_eSRRF_temporal_correlations st r correlation) = Inl correlation_error
      \<longleftrightarrow> correlation \<notin> {''AVG'', ''VAR'', ''TAC2''})
   \<and> ((\<exists>st'. calculate_SRRF_temporal_correlations st r order lag = Some (Inl AssertionError, st'))
      \<longleftrightarrow> \<not> (ndim (st ! r) = 3 \<and> order \<le> 4))
   \<and> (ndim (st ! r) = 3 \<and> order \<in> {2, 3, 4} \<and> lag \<noteq> 1 \<longrightarrow>
        (\<exists>out st'. calculate_SRRF_temporal_correlations st r order lag = Some (Inr (PyArray out), st')))"
proof (intro conjI)
  show "fst (calculate_eSRRF_temporal_correlations st r correlation) = Inl correlation_error
      \<longleftrightarrow> correlation \<notin> {''AVG'', ''VAR'', ''TAC2''}"
    by (simp add: calculate_eSRRF_temporal_correlations_def np_copy_def)
next
  show "(\<exists>st'. calculate_SRRF_temporal_correlations st r order lag = Some (Inl AssertionError, st'))
      \<longleftrightarrow> \<not> (ndim (st ! r) = 3 \<and> order \<le> 4)"
  proof
    assume "\<exists>st'. calculate_SRRF_temporal_correlations st r order lag = Some (Inl AssertionError, st')"
    then show "\<not> (ndim (st ! r) = 3 \<and> order \<le> 4)"
      using SRRF_error_kinds [of st r order lag AssertionError] by blast
  next
    assume "\<not> (ndim (st ! r) = 3 \<and> order \<le> 4)"
    then show "\<exists>st'. calculate_SRRF_temporal_correlations st r order lag = Some (Inl AssertionError, st')"
      by (auto simp: calculate_SRRF_temporal_correlations_def np_copy_def)
  qed
next
  show "ndim (st ! r) = 3 \<and> order \<in> {2, 3, 4} \<and> lag \<noteq> 1 \<longrightarrow>
        (\<exists>out st'. calculate_SRRF_temporal_correlations st r order lag = Some (Inr (PyArray out), st'))"
    using SRRF_cumulant_no_frame_check [of st r order lag] by blast
qed

theorem validated_errors_witness:
  "''MAX'' \<notin> {''AVG'', ''VAR'', ''TAC2''}
   \<and> fst (calculate_eSRRF_temporal_correlations [NDStack [1, 1] [[Fin 1], [Fin 2]]] 0 ''MAX'')
        = Inl correlation_error
   \<and> ndim ([NDStack [1, 1] [[Fin 1], [Fin 2]]] ! 0) = 3 \<and> (4::int) \<in> {2, 3, 4} \<and> (0::int) \<noteq> 1
   \<and> \<not> (\<exists>st'. calculate_SRRF_temporal_correlations [NDStack [1, 1] [[Fin 1], [Fin 2]]] 0 4 0
               = Some (Inl AssertionError, st'))
   \<and> (\<exists>out st'. calculate_SRRF_temporal_correlations [NDStack [1, 1] [[Fin 1], [Fin 2]]] 0 4 0
               = Some (Inr (PyArray out), st'))"
  using validated_errors [of "[NDStack [1, 1] [[Fin 1], [Fin 2]]]" 0 "''MAX''" 4 0]
  by (simp add: ndim_def)

section \<open>The caller's array is not written\<close>

lemma store_setitem_frame:
  "store_setitem st im t v = Inr st' \<Longrightarrow>
     length st' = length st \<and> (\<forall>i. i \<noteq> im \<longrightarrow> st' ! i = st ! i)"
  by (auto simp: store_setitem_def split: sum.splits)

lemma bin_loop_frame:
  "bin_loop im order t tbin ks st = (res, st') \<Longrightarrow>
     length st' = length st \<and> (\<forall>i. i \<noteq> im \<longrightarrow> st' ! i = st ! i)"
proof (induction ks arbitrary: st)
  case Nil
  then show ?case by simp
next
  case (Cons k ks)
  from Cons.prems show ?case
    by (auto split: sum.splits dest!: Cons.IH store_setitem_frame)
qed

lemma lag_inner_frame:
  "lag_inner st im mean order h w n t A = (res, st') \<Longrightarrow>
     length st' = length st \<and> (\<forall>i. i \<noteq> im \<longrightarrow> st' ! i = st ! i)"
proof (induction st im mean order h w n t A rule: lag_inner.induct)
  case (1 st im mean order h w n t A)
  note unfold = "1.prems" [unfolded lag_inner.simps [of st im mean order h w n t A]]
  show ?case
  proof (cases "real_of_int t < n - real_of_int order")
    case False
    with unfold show ?thesis by simp
  next
    case True
    show ?thesis
    proof (cases "accumulate (st ! im) mean order t A")
      case (Inl e)
      with True unfold show ?thesis by simp
    next
      case A': (Inr A')
      show ?thesis
      proof (cases "store_setitem st im t (np_zeros [h, w])")
        case (Inl e)
        with True A' unfold show ?thesis by simp
      next
        case st1: (Inr st1)
        obtain u st2 where b: "(u, st2) = (if real_of_int (t * order) < n
            then bin_loop im order t (t * order) [0..<nat (order - 1)] st1 else (Inr (), st1))"
          by (metis surj_pair)
        have f1: "length st1 = length st \<and> (\<forall>i. i \<noteq> im \<longrightarrow> st1 ! i = st ! i)"
          using store_setitem_frame [OF st1] .
        have f2: "length st2 = length st1 \<and> (\<forall>i. i \<noteq> im \<longrightarrow> st2 ! i = st1 ! i)"
          using b bin_loop_frame [of im order t "t * order" "[0..<nat (order - 1)]" st1 u st2]
          by (auto split: if_splits)
        show ?thesis
        proof (cases u)
          case (Inl e)
          with True A' st1 b [symmetric] unfold have "st' = st2" by simp
          with f1 f2 show ?thesis by simp
        next
          case (Inr x)
          with True A' st1 b [symmetric] unfold
          have "lag_inner st2 im mean order h w n (t + 1) A' = (res, st')" by simp
          from "1.IH" [OF True A' st1 b Inr this] f1 f2 show ?thesis by simp
        qed
      qed
    qed
  qed
qed

lemma lag_outer_frame:
  assumes "lag_outer st im mean order h w n A out = Some y"
  shows "length (snd y) = length st \<and> (\<forall>i. i \<noteq> im \<longrightarrow> snd y ! i = st ! i)"
  using assms
proof (rule lag_outer.raw_induct [rotated])
  fix f st im mean order h w n A out y
  assume IH: "\<And>st im mean order h w n A out y.
                 f st im mean order h w n A out = Some y \<Longrightarrow>
                 length (snd y) = length st \<and> (\<forall>i. i \<noteq> im \<longrightarrow> snd y ! i = st ! i)"
    and step: "(if real_of_int order < n
        then case lag_inner st im mean order h w n 0 (A\<lparr>ab := np_zeros [h, w]\<rparr>) of
             (Inl e, st') \<Rightarrow> Some (Inl e, st')
             | (Inr A', st') \<Rightarrow>
                 if order = 0 then Some (Inl ZeroDivisionError, st')
                 else f st' im mean order h w (n / real_of_int order) A' (acrf_out order A' n)
        else Some (Inr out, st)) = Some y"
  show "length (snd y) = length st \<and> (\<forall>i. i \<noteq> im \<longrightarrow> snd y ! i = st ! i)"
  proof (cases "real_of_int order < n")
    case False
    with step show ?thesis by auto
  next
    case True
    obtain res st1 where i: "lag_inner st im mean order h w n 0 (A\<lparr>ab := np_zeros [h, w]\<rparr>) = (res, st1)"
      by (metis surj_pair)
    note f1 = lag_inner_frame [OF i]
    show ?thesis
    proof (cases res)
      case (Inl e)
      with True i step f1 show ?thesis by auto
    next
      case (Inr A')
      show ?thesis
      proof (cases "order = 0")
        case True
        with \<open>real_of_int order < n\<close> Inr i step f1 show ?thesis by auto
      next
        case False
        with \<open>real_of_int order < n\<close> Inr i step
        have "f st1 im mean order h w (n / real_of_int order) A' (acrf_out order A' n) = Some y"
          by simp
        from IH [OF this] f1 show ?thesis by simp
      qed
    qed
  qed
qed

lemma lag_outer_terminates:
  assumes "2 \<le> order"
  shows "\<exists>y. lag_outer st im mean order h w n A out = Some y"
proof (induction "nat \<lceil>n\<rceil>" arbitrary: st n A out rule: less_induct)
  case less
  show ?case
  proof (cases "real_of_int order < n")
    case False
    then show ?thesis by (subst lag_outer.simps) simp
  next
    case True
    obtain res st1 where i: "lag_inner st im mean order h w n 0 (A\<lparr>ab := np_zeros [h, w]\<rparr>) = (res, st1)"
      by (metis surj_pair)
    show ?thesis
    proof (cases res)
      case (Inl e)
      with True i show ?thesis by (subst lag_outer.simps) simp
    next
      case (Inr A')
      have n2: "2 < n" using True assms by linarith
      have "n / real_of_int order \<le> n / 2"
        using assms n2 by (intro divide_left_mono) auto
      also have "\<dots> \<le> n - 1" using n2 by simp
      finally have "\<lceil>n / real_of_int order\<rceil> \<le> \<lceil>n - 1\<rceil>" by (rule ceiling_mono)
      then have "nat \<lceil>n / real_of_int order\<rceil> < nat \<lceil>n\<rceil>" using n2 by linarith
      from less [OF this] obtain y where
        "lag_outer st1 im mean order h w (n / real_of_int order) A' (acrf_out order A' n) = Some y"
        by blast
      with True i Inr assms show ?thesis by (subst lag_outer.simps) simp
    qed
  qed
qed

lemma calculate_acrf_frame:
  assumes "calculate_acrf st r order lag = Some (res, st')"
  shows "length st' = Suc (length st) \<and> (\<forall>i < length st. st' ! i = st ! i)"
proof (cases "unpack_shape3 (st ! r)")
  case (Inl e)
  with assms show ?thesis
    by (auto simp: calculate_acrf_def np_copy_def nth_append)
next
  case (Inr thw)
  obtain T h w where thw: "thw = (T, h, w)" by (cases thw) auto
  show ?thesis
  proof (cases "lag \<noteq> 1")
    case True
    with assms Inr thw show ?thesis
      by (auto simp: calculate_acrf_no_lag nth_append split: sum.splits)
  next
    case False
    with assms Inr thw
    have "lag_outer (st @ [st ! r]) (length st) (np_mean (st ! r)) order h w (real T)
            (acc_zeros h w) (np_zeros [h, w]) = Some (res, st')"
      by (simp add: calculate_acrf_def np_copy_def Let_def)
    from lag_outer_frame [OF this] show ?thesis by (auto simp: nth_append)
  qed
qed

lemma calculate_acrf_returns:
  assumes "2 \<le> order"
  shows "calculate_acrf st r order lag \<noteq> None"
proof (cases "unpack_shape3 (st ! r)")
  case (Inl e)
  then show ?thesis by (simp add: calculate_acrf_def np_copy_def)
next
  case (Inr thw)
  obtain T h w where thw: "thw = (T, h, w)" by (cases thw) auto
  show ?thesis
  proof (cases "lag \<noteq> 1")
    case True
    with Inr thw show ?thesis by (auto simp: calculate_acrf_no_lag split: sum.splits)
  next
    case False
    with Inr thw lag_outer_terminates [OF assms, of "st @ [st ! r]" "length st" "np_mean (st ! r)"
        h w "real T" "acc_zeros h w" "np_zeros [h, w]"]
    show ?thesis by (auto simp: calculate_acrf_def np_copy_def Let_def)
  qed
qed

lemma SRRF_frame:
  assumes "calculate_SRRF_temporal_correlations st r order lag = Some (res, st')"
  shows "\<forall>i < length st. st' ! i = st ! i"
proof (cases "ndim (st ! r) = 3 \<and> order \<le> 4 \<and> order \<notin> {0, 1, - 1}")
  case True
  with assms obtain res2 where
    "calculate_acrf (st @ [st ! r]) (length st) order lag = Some (res2, st')"
    by (auto simp: SRRF_dispatch)
  from calculate_acrf_frame [OF this] show ?thesis by (auto simp: nth_append)
next
  case False
  with assms have "st' = st @ [st ! r]"
    by (auto simp: calculate_SRRF_temporal_correlations_def np_copy_def split: if_splits)
  then show ?thesis by (simp add: nth_append)
qed

lemma SRRF_returns:
  assumes "order \<in> {- 1, 0, 1, 2, 3, 4}"
  shows "calculate_SRRF_temporal_correlations st r order lag \<noteq> None"
proof (cases "order \<in> {- 1, 0, 1}")
  case True
  then show ?thesis
    by (auto simp: calculate_SRRF_temporal_correlations_def np_copy_def)
next
  case False
  with assms have "2 \<le> order" by auto
  from calculate_acrf_returns [OF this, of "st @ [st ! r]" "length st" lag] show ?thesis
    by (auto simp: calculate_SRRF_temporal_correlations_def np_copy_def)
qed

text \<open>
  C7. Neither entry point mutates the caller's array, nor any object that exists before
  the call: whenever the SRRF entry point returns (it does for every documented order,
  with or without lag integration), the objects of the initial store are unchanged in
  the final one, the caller's stack among them; the writes of the binning step go to the
  copy allocated by \<open>rad_array.copy()\<close>. The same holds for every kind of the eSRRF
  entry point.
\<close>

theorem input_never_mutated:
  "(calculate_SRRF_temporal_correlations st r order lag = Some (res, st') \<and> r < length st
      \<longrightarrow> st' ! r = st ! r \<and> take (length st) st' = st)
   \<and> (order \<in> {- 1, 0, 1, 2, 3, 4} \<longrightarrow> calculate_SRRF_temporal_correlations st r order lag \<noteq> None)
   \<and> snd (calculate_eSRRF_temporal_correlations st r correlation) = st @ [st ! r]"
proof (intro conjI impI)
  assume a: "calculate_SRRF_temporal_correlations st r order lag = Some (res, st') \<and> r < length st"
  then have f: "\<forall>i < length st. st' ! i = st ! i" using SRRF_frame by blast
  then show "st' ! r = st ! r" using a by simp
  have "length st \<le> length st'"
  proof (cases "ndim (st ! r) = 3 \<and> order \<le> 4 \<and> order \<notin> {0, 1, - 1}")
    case True
    with a obtain res2 where
      "calculate_acrf (st @ [st ! r]) (length st) order lag = Some (res2, st')"
      by (auto simp: SRRF_dispatch)
    from calculate_acrf_frame [OF this] show ?thesis by simp
  next
    case False
    with a have "st' = st @ [st ! r]"
      by (auto simp: calculate_SRRF_temporal_correlations_def np_copy_def split: if_splits)
    then show ?thesis by simp
  qed
  with f show "take (length st) st' = st"
    by (intro nth_equalityI) auto
next
  assume "order \<in> {- 1, 0, 1, 2, 3, 4}"
  then show "calculate_SRRF_temporal_correlations st r order lag \<noteq> None"
    by (rule SRRF_returns)
next
  show "snd (calculate_eSRRF_temporal_correlations st r correlation) = st @ [st ! r]"
    by (simp add: calculate_eSRRF_temporal_correlations_def np_copy_def)
qed

theorem input_never_mutated_witness:
  "calculate_SRRF_temporal_correlations [NDStack [1, 1] [[Fin 1], [Fin 2], [Fin 4], [Fin 8], [Fin 16]]] 0 2 1
     = Some (Inr (PyArray (NDArray [1, 1] [Fin (1302 / 125)])),
         [NDStack [1, 1] [[Fin 1], [Fin 2], [Fin 4], [Fin 8], [Fin 16]],
          NDStack [1, 1] [[Fin 1], [Fin 2], [Fin 4], [Fin 8], [Fin 16]],
          NDStack [1, 1] [[Fin 0], [Fin 2], [Fin 8], [Fin 8], [Fin 16]]])
   \<and> (0::nat) < length [NDStack [1, 1] [[Fin 1], [Fin 2], [Fin 4], [Fin 8], [Fin 16]]]
   \<and> (2::int) \<in> {- 1, 0, 1, 2, 3, 4}
   \<and> [NDStack [1, 1] [[Fin 1], [Fin 2], [Fin 4], [Fin 8], [Fin 16]],
       NDStack [1, 1] [[Fin 1], [Fin 2], [Fin 4], [Fin 8], [Fin 16]],
       NDStack [1, 1] [[Fin 0], [Fin 2], [Fin 8], [Fin 8], [Fin 16]]] ! 0
     = [NDStack [1, 1] [[Fin 1], [Fin 2], [Fin 4], [Fin 8], [Fin 16]]] ! 0"
proof -
  have e: "calculate_SRRF_temporal_correlations [NDStack [1, 1] [[Fin 1], [Fin 2], [Fin 4], [Fin 8], [Fin 16]]] 0 2 1
     = Some (Inr (PyArray (NDArray [1, 1] [Fin (1302 / 125)])),
         [NDStack [1, 1] [[Fin 1], [Fin 2], [Fin 4], [Fin 8], [Fin 16]],
          NDStack [1, 1] [[Fin 1], [Fin 2], [Fin 4], [Fin 8], [Fin 16]],
          NDStack [1, 1] [[Fin 0], [Fin 2], [Fin 8], [Fin 8], [Fin 16]]])"
    by code_simp
  show ?thesis
    using e input_never_mutated [of "[NDStack [1, 1] [[Fin 1], [Fin 2], [Fin 4], [Fin 8], [Fin 16]]]" 0 2 1
        "Inr (PyArray (NDArray [1, 1] [Fin (1302 / 125)]))"
        "[NDStack [1, 1] [[Fin 1], [Fin 2], [Fin 4], [Fin 8], [Fin 16]],
          NDStack [1, 1] [[Fin 1], [Fin 2], [Fin 4], [Fin 8], [Fin 16]],
          NDStack [1, 1] [[Fin 0], [Fin 2], [Fin 8], [Fin 8], [Fin 16]]]"]
    by simp
qed

section \<open>The order-2 cumulant and TAC2\<close>

lemma f32_abs_div_not_negative: "0 \<le> n \<Longrightarrow> \<not> f32_negative (f32_div (f32_abs v) n)"
proof (cases v)
  case (Fin a)
  assume "0 \<le> n"
  then have "0 \<le> \<bar>a\<bar> / n" by simp
  with Fin show ?thesis by (simp add: not_less)
next
  case NaN
  then show ?thesis by simp
qed

lemma acrf_out_order2_not_negative:
  "0 \<le> n \<Longrightarrow> list_all (\<lambda>v. \<not> f32_negative v) (data (acrf_out 2 A n))"
  by (simp add: acrf_out_def np_divide_def np_absolute_def list_all_iff f32_abs_div_not_negative)

text \<open>
  C6, as stated, fails: on the one-pixel stack \<open>0, 2, 0, 2\<close> (mean 1, every lag-1 product
  of centred frames \<open>-1\<close>; all values exact in single precision) the order-2 cumulant is
  \<open>0.5\<close>, positive, and TAC2 is \<open>-1\<close>, negative, so no positive constant relates them.
\<close>

theorem cumulant2_tac2_proportional_counterexample:
  "fst (the (calculate_SRRF_temporal_correlations
               [NDStack [1, 1] [[Fin 0], [Fin 2], [Fin 0], [Fin 2]]] 0 2 0))
     = Inr (PyArray (NDArray [1, 1] [Fin (1 / 2)]))
   \<and> fst (calculate_eSRRF_temporal_correlations
            [NDStack [1, 1] [[Fin 0], [Fin 2], [Fin 0], [Fin 2]]] 0 ''TAC2'')
     = Inr (NDArray [1, 1] [Fin (- 1)])
   \<and> (0::real) < 1 / 2 \<and> - 1 < (0::real)"
  by code_simp

text \<open>
  C6, amended. For every three-dimensional input stack, the order-2 cumulant without
  lag integration is an absolute value divided by the number of frames: no entry of
  the CUMULANT2 map is negative, whatever the sign of the TAC2 value at that pixel.
  The two maps are therefore not proportional with a positive constant; where TAC2 is
  negative the signs differ.
\<close>

theorem cumulant2_never_negative:
  assumes "ndim (st ! r) = 3" and "lag \<noteq> 1"
  shows "\<exists>cum2 st1.
           calculate_SRRF_temporal_correlations st r 2 lag = Some (Inr (PyArray cum2), st1)
         \<and> list_all (\<lambda>v. \<not> f32_negative v) (data cum2)"
proof -
  obtain h w where u: "unpack_shape3 (st ! r) = Inr (n_frames (st ! r), h, w)"
    using unpack_shape3_ndim [OF assms(1)] by blast
  obtain t' A' where l: "acrf_loop (st ! r) (np_mean (st ! r)) 2 (int (n_frames (st ! r))) 0
                           (acc_zeros h w) = Inr (t', A')"
    using acrf_loop_ok [of 2 "int (n_frames (st ! r))" "st ! r" 0 "np_mean (st ! r)" "acc_zeros h w"]
    by auto
  have "calculate_acrf (st @ [st ! r]) (length st) 2 lag
          = Some (Inr (acrf_out 2 A' (real (n_frames (st ! r)))), (st @ [st ! r]) @ [st ! r])"
    using calculate_acrf_no_lag [of "st @ [st ! r]" "length st" "n_frames (st ! r)" h w lag 2] u l assms(2)
    by simp
  then have "calculate_SRRF_temporal_correlations st r 2 lag
          = Some (Inr (PyArray (acrf_out 2 A' (real (n_frames (st ! r))))), (st @ [st ! r]) @ [st ! r])"
    using SRRF_dispatch [OF assms(1), of 2 lag] by simp
  then show ?thesis
    using acrf_out_order2_not_negative [of "real (n_frames (st ! r))" A'] by simp
qed

theorem cumulant2_never_negative_witness:
  "ndim ([NDStack [1, 1] [[Fin 0], [Fin 2], [Fin 0], [Fin 2]]] ! 0) = 3 \<and> (0::int) \<noteq> 1
   \<and> (\<exists>cum2 st1.
           calculate_SRRF_temporal_correlations [NDStack [1, 1] [[Fin 0], [Fin 2], [Fin 0], [Fin 2]]] 0 2 0
             = Some (Inr (PyArray cum2), st1)
         \<and> list_all (\<lambda>v. \<not> f32_negative v) (data cum2))
   \<and> fst (the (calculate_SRRF_temporal_correlations
               [NDStack [1, 1] [[Fin 0], [Fin 2], [Fin 0], [Fin 2]]] 0 2 0))
     = Inr (PyArray (NDArray [1, 1] [Fin (1 / 2)]))"
proof -
  have e: "fst (the (calculate_SRRF_temporal_correlations
               [NDStack [1, 1] [[Fin 0], [Fin 2], [Fin 0], [Fin 2]]] 0 2 0))
     = Inr (PyArray (NDArray [1, 1] [Fin (1 / 2)]))"
    by code_simp
  show ?thesis
    using cumulant2_never_negative [of "[NDStack [1, 1] [[Fin 0], [Fin 2], [Fin 0], [Fin 2]]]" 0 0] e
    by (simp add: ndim_def)
qed

section \<open>The sub-pixel peak locator\<close>

lemma objective_log:
  assumes "shape (slice_ccm self) = [s0, s1]"
  shows "snd (get_interpolated_px_value lib self p lg) = lg @ [Call_griddata]"
  using assms by (simp add: get_interpolated_px_value_def reshape_flat_def Let_def)

lemma minimize_loop_log:
  assumes "\<And>p lg. snd (f p lg) = lg @ [Call_griddata]"
  shows "\<exists>k. snd (minimize_loop lib f budget hist lg) = lg @ replicate k Call_griddata
            \<and> (\<forall>hist'. fst (minimize_loop lib f budget hist lg) = Inr hist'
                  \<longrightarrow> length hist' = length hist + k)"
proof (induction budget arbitrary: hist lg)
  case 0
  show ?case by (rule exI [of _ 0]) simp
next
  case (Suc budget)
  show ?case
  proof (cases "next_point lib hist")
    case None
    then show ?thesis by (intro exI [of _ 0]) simp
  next
    case (Some p)
    obtain r lg' where f: "f p lg = (r, lg')" by (metis surj_pair)
    then have lg': "lg' = lg @ [Call_griddata]" using assms [of p lg] by simp
    show ?thesis
    proof (cases r)
      case (Inl e)
      with Some f lg' show ?thesis by (intro exI [of _ 1]) simp
    next
      case (Inr v)
      from Suc [of "hist @ [(p, v)]" lg'] obtain k where
        k: "snd (minimize_loop lib f budget (hist @ [(p, v)]) lg') = lg' @ replicate k Call_griddata"
           "\<forall>hist'. fst (minimize_loop lib f budget (hist @ [(p, v)]) lg') = Inr hist'
                  \<longrightarrow> length hist' = length (hist @ [(p, v)]) + k"
        by blast
      with Some f lg' Inr show ?thesis
        by (intro exI [of _ "Suc k"]) (simp add: replicate_app_Cons_same)
    qed
  qed
qed

lemma minimize_log:
  assumes "\<And>p lg. snd (f p lg) = lg @ [Call_griddata]"
  shows "\<exists>k\<ge>1. snd (minimize lib f x0 maxiter lg) = lg @ replicate k Call_griddata
            \<and> (\<forall>res. fst (minimize lib f x0 maxiter lg) = Inr res \<longrightarrow> result_nfev res = k)"
proof -
  obtain r lg' where f: "f x0 lg = (r, lg')" by (metis surj_pair)
  then have lg': "lg' = lg @ [Call_griddata]" using assms [of x0 lg] by simp
  show ?thesis
  proof (cases r)
    case (Inl e)
    with f lg' show ?thesis by (intro exI [of _ 1]) (simp add: minimize_def)
  next
    case (Inr v)
    obtain k where
      k: "snd (minimize_loop lib f (eval_budget lib maxiter) [(x0, v)] lg') = lg' @ replicate k Call_griddata"
         "\<forall>hist'. fst (minimize_loop lib f (eval_budget lib maxiter) [(x0, v)] lg') = Inr hist'
                  \<longrightarrow> length hist' = length [(x0, v)] + k"
      using minimize_loop_log [of f lib "eval_budget lib maxiter" "[(x0, v)]" lg'] assms by blast
    obtain r2 lg2 where m: "minimize_loop lib f (eval_budget lib maxiter) [(x0, v)] lg' = (r2, lg2)"
      by (metis surj_pair)
    with k f lg' Inr show ?thesis
      by (intro exI [of _ "Suc k"]) (auto simp: minimize_def replicate_app_Cons_same split: sum.splits)
  qed
qed

lemma argmax_unravel_ok:
  assumes "shape a = [s0, s1]" and "data a \<noteq> []"
  shows "\<exists>y_max x_max. bind_err (argmax a) (\<lambda>i. unravel_index2 i (shape a)) = Inr (y_max, x_max)"
  using assms by (auto simp: bind_err_def argmax_def unravel_index2_def split: list.splits)

lemma get_max_log:
  assumes "shape (slice_ccm self) = [s0, s1]" and "data (slice_ccm self) \<noteq> []"
  shows "\<exists>k\<ge>1. snd (get_max lib self lg) = lg @ replicate k Call_griddata"
proof -
  obtain y_max x_max where
    a: "bind_err (argmax (slice_ccm self)) (\<lambda>i. unravel_index2 i (shape (slice_ccm self)))
          = Inr (y_max, x_max)"
    using argmax_unravel_ok [OF assms] by blast
  obtain k where k: "k \<ge> 1"
    "snd (minimize lib (get_interpolated_px_value lib self) (real y_max, real x_max) 1000 lg)
       = lg @ replicate k Call_griddata"
    using minimize_log [of "get_interpolated_px_value lib self" lib "(real y_max, real x_max)" 1000 lg]
      objective_log [OF assms(1)] by blast
  show ?thesis
    using a k by (intro exI [of _ k]) (auto simp: get_max_def split: prod.splits sum.splits)
qed

lemma unravel_index2_shape: "unravel_index2 i sh = Inr p \<Longrightarrow> \<exists>s0 s1. sh = [s0, s1]"
  by (auto simp: unravel_index2_def split: list.splits)

lemma get_max_log_any: "\<exists>k. snd (get_max lib self lg) = lg @ replicate k Call_griddata"
proof (cases "bind_err (argmax (slice_ccm self)) (\<lambda>i. unravel_index2 i (shape (slice_ccm self)))")
  case (Inl e)
  then show ?thesis by (intro exI [of _ 0]) (simp add: get_max_def)
next
  case (Inr p)
  then obtain s0 s1 where sh: "shape (slice_ccm self) = [s0, s1]"
    by (auto simp: bind_err_def dest: unravel_index2_shape split: sum.splits)
  obtain y_max x_max where p: "p = (y_max, x_max)" by (cases p) auto
  obtain k where
    "snd (minimize lib (get_interpolated_px_value lib self) (real y_max, real x_max) 1000 lg)
       = lg @ replicate k Call_griddata"
    using minimize_log [of "get_interpolated_px_value lib self" lib "(real y_max, real x_max)" 1000 lg]
      objective_log [OF sh] by blast
  then show ?thesis
    using Inr p by (intro exI [of _ k]) (auto simp: get_max_def split: prod.splits sum.splits)
qed

lemma GetMaxOptimizer_init_log:
  "snd (GetMaxOptimizer_init lib surface lg) = lg
     \<and> (\<exists>e. fst (GetMaxOptimizer_init lib surface lg) = Inl e)
   \<or> snd (GetMaxOptimizer_init lib surface lg) = lg @ [Call_interp2d]"
  by (auto simp: GetMaxOptimizer_init_def split: list.splits sum.splits)

lemma locate_max_log:
  "\<exists>j k. j \<le> 1 \<and> snd (locate_max lib surface lg)
            = lg @ replicate j Call_interp2d @ replicate k Call_griddata"
proof -
  obtain res lg' where i: "GetMaxOptimizer_init lib surface lg = (res, lg')"
    by (metis surj_pair)
  show ?thesis
  proof (cases res)
    case (Inl e)
    with i GetMaxOptimizer_init_log [of lib surface lg]
    have "lg' = lg \<or> lg' = lg @ [Call_interp2d]" by auto
    then show ?thesis
    proof
      assume "lg' = lg"
      with i Inl show ?thesis
        by (intro exI [of _ 0]) (simp add: locate_max_def)
    next
      assume "lg' = lg @ [Call_interp2d]"
      with i Inl show ?thesis
        by (intro exI [of _ 1] exI [of _ 0]) (simp add: locate_max_def)
    qed
  next
    case (Inr self)
    with i GetMaxOptimizer_init_log [of lib surface lg]
    have lg': "lg' = lg @ [Call_interp2d]" by auto
    obtain k where "snd (get_max lib self lg') = lg' @ replicate k Call_griddata"
      using get_max_log_any by blast
    with i Inr lg' show ?thesis
      by (intro exI [of _ 1] exI [of _ k]) (simp add: locate_max_def)
  qed
qed

text \<open>
  C8. On the \<open>3 \<times> 3\<close> surface with a single peak in the middle the constructor's call
  of \<open>interp2d\<close> raises, so no interpolation structure is built and no objective is
  evaluated. For every library and every surface, the library calls of \<open>locate_max\<close>
  are at most one call of \<open>interp2d\<close> followed by calls of \<open>griddata\<close>, one for every
  evaluation of the objective that \<open>get_max\<close> hands to \<open>minimize\<close>; the interpolant built
  by the constructor is never called.
\<close>

theorem locate_max_never_calls_interpolator:
  "(\<exists>j k. j \<le> 1 \<and> snd (locate_max lib surface [])
             = replicate j Call_interp2d @ replicate k Call_griddata)
   \<and> Call_interpolator \<notin> set (snd (locate_max lib surface []))
   \<and> locate_max stub_lib
        (NDArray [3, 3] [Fin 0, Fin 0, Fin 0, Fin 0, Fin 1, Fin 0, Fin 0, Fin 0, Fin 0]) []
      = (Inl (ValueError ''x and y must have equal lengths for non rectangular grid''),
         [Call_interp2d])"
proof -
  obtain j k where jk: "j \<le> 1"
    "snd (locate_max lib surface []) = replicate j Call_interp2d @ replicate k Call_griddata"
    using locate_max_log [of lib surface "[]"] by auto
  have e: "locate_max stub_lib
        (NDArray [3, 3] [Fin 0, Fin 0, Fin 0, Fin 0, Fin 1, Fin 0, Fin 0, Fin 0, Fin 0]) []
      = (Inl (ValueError ''x and y must have equal lengths for non rectangular grid''),
         [Call_interp2d])"
    by code_simp
  from jk e show ?thesis by auto
qed

text \<open>
  C1. On the \<open>2 \<times> 2\<close> surface \<open>[[0, 0], [0, 1]]\<close> the constructor hands \<open>interp2d\<close> two
  row coordinates, the single number 2 in place of the two column coordinates, and four
  samples; when \<open>interp2d\<close> raises, \<open>locate_max\<close> raises the same error, before any search.
  With a library that makes scipy's check on the sizes of these arguments the call
  raises ValueError.
\<close>

theorem locate_max_grid_mismatch:
  "locate_max lib (NDArray [2, 2] [Fin 0, Fin 0, Fin 0, Fin 1]) lg
     = (case interp2d lib [0, 1] [2] [Fin 0, Fin 0, Fin 0, Fin 1] of
          Inl e \<Rightarrow> (Inl e, lg @ [Call_interp2d])
        | Inr i \<Rightarrow> get_max lib \<lparr>slice_ccm = NDArray [2, 2] [Fin 0, Fin 0, Fin 0, Fin 1],
                                 self_w = 2, self_h = 2, interpolator = i\<rparr> (lg @ [Call_interp2d]))
   \<and> locate_max stub_lib (NDArray [2, 2] [Fin 0, Fin 0, Fin 0, Fin 1]) []
     = (Inl (ValueError ''x and y must have equal lengths for non rectangular grid''), [Call_interp2d])"
proof
  have "[0..<2] = [0, 1]" by (simp add: upt_rec)
  then show "locate_max lib (NDArray [2, 2] [Fin 0, Fin 0, Fin 0, Fin 1]) lg
     = (case interp2d lib [0, 1] [2] [Fin 0, Fin 0, Fin 0, Fin 1] of
          Inl e \<Rightarrow> (Inl e, lg @ [Call_interp2d])
        | Inr i \<Rightarrow> get_max lib \<lparr>slice_ccm = NDArray [2, 2] [Fin 0, Fin 0, Fin 0, Fin 1],
                                 self_w = 2, self_h = 2, interpolator = i\<rparr> (lg @ [Call_interp2d]))"
    by (simp add: locate_max_def GetMaxOptimizer_init_def reshape_flat_def split: sum.splits)
next
  show "locate_max stub_lib (NDArray [2, 2] [Fin 0, Fin 0, Fin 0, Fin 1]) []
     = (Inl (ValueError ''x and y must have equal lengths for non rectangular grid''), [Call_interp2d])"
    by code_simp
qed

end
